theory Spec2Isabelle
  imports Main "HOL-Library.Word"
begin

section \<open>The ECDSA example application (examples/crypto/nrf_crypto/ecdsa/main.c)\<close>

text \<open>
  The example signs a fixed SHA-256 digest with a predefined private key (Alice) and
  verifies the signature with the matching predefined public key (Bob). All cryptography
  is done by the nrf_crypto library, whose backend is selected in sdk_config.h. The
  application is modelled by explicit state passing over its static variables; the
  library is a record of functions, so that every statement about the application holds
  for every backend.
\<close>

subsection \<open>Data\<close>

type_synonym byte = "8 word"

text \<open>
  \<open>ret_code_t\<close>: the application tells three cases apart, \<open>NRF_SUCCESS\<close>,
  \<open>NRF_ERROR_CRYPTO_ECDSA_INVALID_SIGNATURE\<close> and every other code. The numeric values
  of the two macros are declared in headers outside this file; only their being distinct
  is used.
\<close>

datatype ret_code_t =
    NRF_SUCCESS
  | NRF_ERROR_CRYPTO_ECDSA_INVALID_SIGNATURE
  | NRF_ERROR "32 word"

text \<open>
  What the application emits, in order: the log macros it invokes, its library calls, the
  fatal handler. \<open>LOG_RAW_HEX\<close> is one byte written with the format \<open>%02x\<close>; the byte
  is \<open>None\<close> when it is read past the end of its array.
\<close>

datatype event =
    LOG_INFO string
  | LOG_WARNING string
  | LOG_ERROR ret_code_t
  | LOG_RAW_INFO string
  | LOG_RAW_HEX "byte option"
  | CALL string
  | APP_ERROR_HANDLER ret_code_t

text \<open>
  The static variables of the file: \<open>m_signature\<close>, \<open>m_signature_size\<close>, and the two
  function-local statics \<open>alice_private_key\<close> (in \<open>alice_sign\<close>) and
  \<open>alice_public_key\<close> (in \<open>bob_verify\<close>). The key objects are opaque to the
  application: their type is a parameter.
\<close>

record ('priv, 'pub) demo_state =
  m_signature :: "byte list"
  m_signature_size :: nat
  alice_private_key :: 'priv
  alice_public_key :: 'pub
  trace :: "event list"

text \<open>
  The SDK as the application is built against it: the setting \<open>NRF_LOG_ENABLED\<close> of
  sdk_config.h, and the library functions the application calls. Output parameters of
  the C functions are returned next to the return code. The curve argument is always
  \<open>g_nrf_crypto_ecc_secp256r1_curve_info\<close>; the context argument is a pointer that
  may be \<open>NULL\<close> (\<open>None\<close>).
\<close>

record ('priv, 'pub, 'ctx) nrf_crypto =
  NRF_LOG_ENABLED :: bool
  nrf_log_init :: ret_code_t
  nrf_mem_init :: ret_code_t
  nrf_crypto_init :: ret_code_t
  nrf_crypto_ecc_private_key_from_raw :: "'priv \<Rightarrow> byte list \<Rightarrow> nat \<Rightarrow> ret_code_t \<times> 'priv"
  nrf_crypto_ecdsa_sign ::
    "'ctx option \<Rightarrow> 'priv \<Rightarrow> byte list \<Rightarrow> nat \<Rightarrow> byte list \<Rightarrow> nat \<Rightarrow> ret_code_t \<times> byte list \<times> nat"
  nrf_crypto_ecc_private_key_free :: "'priv \<Rightarrow> ret_code_t \<times> 'priv"
  nrf_crypto_ecc_public_key_from_raw :: "'pub \<Rightarrow> byte list \<Rightarrow> nat \<Rightarrow> ret_code_t \<times> 'pub"
  nrf_crypto_ecdsa_verify ::
    "'ctx option \<Rightarrow> 'pub \<Rightarrow> byte list \<Rightarrow> nat \<Rightarrow> byte list \<Rightarrow> nat \<Rightarrow> ret_code_t"
  nrf_crypto_ecc_public_key_free :: "'pub \<Rightarrow> ret_code_t \<times> 'pub"

text \<open>
  A function of the application either returns to its caller or ends in the fatal error
  handler: \<open>APP_ERROR_CHECK\<close> hands a non-success code to the application error handler,
  which does not return.
\<close>

datatype outcome = Returned | Fatal ret_code_t

subsection \<open>Constants of the file\<close>

definition m_hash :: "byte list" where
  "m_hash =
    [0x42, 0xba, 0x83, 0x54, 0xdb, 0x26, 0x3a, 0x6a,
     0x5a, 0x9f, 0x74, 0xd6, 0xb7, 0xce, 0xb4, 0xc9,
     0x62, 0xa3, 0xd8, 0xfd, 0x58, 0xa4, 0x19, 0x69,
     0xe5, 0x21, 0xeb, 0x02, 0x22, 0x45, 0x54, 0x15]"

definition m_alice_raw_private_key :: "byte list" where
  "m_alice_raw_private_key =
    [0x11, 0x11, 0x11, 0x11, 0x11, 0x11, 0x11, 0x11,
     0x11, 0x11, 0x11, 0x11, 0x11, 0x11, 0x11, 0x11,
     0x11, 0x11, 0x11, 0x11, 0x11, 0x11, 0x11, 0x11,
     0x11, 0x11, 0x11, 0x11, 0x11, 0x11, 0x11, 0x11]"

definition m_alice_raw_public_key :: "byte list" where
  "m_alice_raw_public_key =
    [0x02, 0x17, 0xE6, 0x17, 0xF0, 0xB6, 0x44, 0x39,
     0x28, 0x27, 0x8F, 0x96, 0x99, 0x9E, 0x69, 0xA2,
     0x3A, 0x4F, 0x2C, 0x15, 0x2B, 0xDF, 0x6D, 0x6C,
     0xDF, 0x66, 0xE5, 0xB8, 0x02, 0x82, 0xD4, 0xED,
     0x19, 0x4A, 0x7D, 0xEB, 0xCB, 0x97, 0x71, 0x2D,
     0x2D, 0xDA, 0x3C, 0xA8, 0x5A, 0xA8, 0x76, 0x5A,
     0x56, 0xF4, 0x5F, 0xC7, 0x58, 0x59, 0x96, 0x52,
     0xF2, 0x89, 0x7C, 0x65, 0x30, 0x6E, 0x57, 0x94]"

text \<open>
  \<open>sizeof(m_signature)\<close>: the type \<open>nrf_crypto_ecdsa_secp256r1_signature_t\<close> is declared
  by the library; a secp256r1 signature is two 32-byte numbers.
\<close>

definition sizeof_m_signature :: nat where
  "sizeof_m_signature = 64"

subsection \<open>Print functions and error check\<close>

definition emit :: "event list \<Rightarrow> ('priv, 'pub) demo_state \<Rightarrow> ('priv, 'pub) demo_state" where
  "emit es st = st\<lparr>trace := trace st @ es\<rparr>"

definition CRLF :: string where
  "CRLF = [CHR 0x0D, CHR 0x0A]"

text \<open>
  \<open>p_string[i]\<close>: the list holds the bytes of the array; an index beyond it reads
  memory that is not the array's.
\<close>

definition read_byte :: "byte list \<Rightarrow> nat \<Rightarrow> byte option" where
  "read_byte p_string i = (if i < length p_string then Some (p_string ! i) else None)"

text \<open>
  \<open>print_array\<close>: compiled only under \<open>NRF_LOG_ENABLED\<close>, it writes four blanks and
  then the bytes \<open>p_string[0]\<close> to \<open>p_string[size - 1]\<close>, whatever the length of the
  array is. \<open>print_hex\<close> logs the message, prints the array and ends the line.
\<close>

definition print_array ::
  "('priv, 'pub, 'ctx) nrf_crypto \<Rightarrow> byte list \<Rightarrow> nat \<Rightarrow>
   ('priv, 'pub) demo_state \<Rightarrow> ('priv, 'pub) demo_state" where
  "print_array L p_string n st =
     (if NRF_LOG_ENABLED L then
        emit (LOG_RAW_INFO ''    '' # map (\<lambda>i. LOG_RAW_HEX (read_byte p_string i)) [0..<n]) st
      else st)"

definition print_hex ::
  "('priv, 'pub, 'ctx) nrf_crypto \<Rightarrow> string \<Rightarrow> byte list \<Rightarrow> nat \<Rightarrow>
   ('priv, 'pub) demo_state \<Rightarrow> ('priv, 'pub) demo_state" where
  "print_hex L p_msg p_data n st =
     emit [LOG_RAW_INFO CRLF] (print_array L p_data n (emit [LOG_INFO p_msg] st))"

text \<open>
  \<open>APP_ERROR_CHECK(error)\<close> enters the error handler when the code is not
  \<open>NRF_SUCCESS\<close>; \<open>DEMO_ERROR_CHECK(error)\<close> logs the code first.
\<close>

definition APP_ERROR_CHECK ::
  "ret_code_t \<Rightarrow> ('priv, 'pub) demo_state \<Rightarrow> outcome \<times> ('priv, 'pub) demo_state" where
  "APP_ERROR_CHECK error st =
     (if error \<noteq> NRF_SUCCESS then (Fatal error, emit [APP_ERROR_HANDLER error] st)
      else (Returned, st))"

definition DEMO_ERROR_CHECK ::
  "ret_code_t \<Rightarrow> ('priv, 'pub) demo_state \<Rightarrow> outcome \<times> ('priv, 'pub) demo_state" where
  "DEMO_ERROR_CHECK error st =
     (if error \<noteq> NRF_SUCCESS then APP_ERROR_CHECK error (emit [LOG_ERROR error] st)
      else (Returned, st))"

text \<open>Sequencing: the rest of a function runs only if the check returned.\<close>

definition and_then ::
  "outcome \<times> 's \<Rightarrow> ('s \<Rightarrow> outcome \<times> 's) \<Rightarrow> outcome \<times> 's" where
  "and_then r f = (case r of (Returned, st) \<Rightarrow> f st | (Fatal e, st) \<Rightarrow> (Fatal e, st))"

subsection \<open>Alice's site\<close>

text \<open>The three library calls of \<open>alice_sign\<close>, each storing its outputs.\<close>

definition alice_key_from_raw ::
  "('priv, 'pub, 'ctx) nrf_crypto \<Rightarrow> ('priv, 'pub) demo_state \<Rightarrow> ret_code_t \<times> ('priv, 'pub) demo_state" where
  "alice_key_from_raw L st =
     (let (err_code, key) =
            nrf_crypto_ecc_private_key_from_raw L (alice_private_key st)
              m_alice_raw_private_key (length m_alice_raw_private_key)
      in (err_code, emit [CALL ''nrf_crypto_ecc_private_key_from_raw''] (st\<lparr>alice_private_key := key\<rparr>)))"

definition alice_ecdsa_sign ::
  "('priv, 'pub, 'ctx) nrf_crypto \<Rightarrow> ('priv, 'pub) demo_state \<Rightarrow> ret_code_t \<times> ('priv, 'pub) demo_state" where
  "alice_ecdsa_sign L st0 =
     (let st = st0\<lparr>m_signature_size := sizeof_m_signature\<rparr>;
          (err_code, sig, sig_size) =
            nrf_crypto_ecdsa_sign L None (alice_private_key st) m_hash (length m_hash)
              (m_signature st) (m_signature_size st)
      in (err_code,
          emit [CALL ''nrf_crypto_ecdsa_sign''] (st\<lparr>m_signature := sig, m_signature_size := sig_size\<rparr>)))"

definition alice_key_free ::
  "('priv, 'pub, 'ctx) nrf_crypto \<Rightarrow> ('priv, 'pub) demo_state \<Rightarrow> ret_code_t \<times> ('priv, 'pub) demo_state" where
  "alice_key_free L st =
     (let (err_code, key) = nrf_crypto_ecc_private_key_free L (alice_private_key st)
      in (err_code, emit [CALL ''nrf_crypto_ecc_private_key_free''] (st\<lparr>alice_private_key := key\<rparr>)))"

definition alice_sign ::
  "('priv, 'pub, 'ctx) nrf_crypto \<Rightarrow> ('priv, 'pub) demo_state \<Rightarrow> outcome \<times> ('priv, 'pub) demo_state" where
  "alice_sign L st0 =
     (let st1 = emit [LOG_INFO ''Alice's signature generation''] st0;
          (err1, st2) = alice_key_from_raw L st1
      in and_then (DEMO_ERROR_CHECK err1 st2) (\<lambda>st3.
         let (err2, st4) = alice_ecdsa_sign L st3
         in and_then (DEMO_ERROR_CHECK err2 st4) (\<lambda>st5.
            let st6 = print_hex L ''Alice's message hash: '' m_hash (length m_hash) st5;
                st7 = print_hex L ''Alice's signature: '' (m_signature st6) (m_signature_size st6) st6;
                (err3, st8) = alice_key_free L st7
            in DEMO_ERROR_CHECK err3 st8)))"

subsection \<open>Bob's site\<close>

definition bob_key_from_raw ::
  "('priv, 'pub, 'ctx) nrf_crypto \<Rightarrow> ('priv, 'pub) demo_state \<Rightarrow> ret_code_t \<times> ('priv, 'pub) demo_state" where
  "bob_key_from_raw L st =
     (let (err_code, key) =
            nrf_crypto_ecc_public_key_from_raw L (alice_public_key st)
              m_alice_raw_public_key (length m_alice_raw_public_key)
      in (err_code, emit [CALL ''nrf_crypto_ecc_public_key_from_raw''] (st\<lparr>alice_public_key := key\<rparr>)))"

definition bob_ecdsa_verify ::
  "('priv, 'pub, 'ctx) nrf_crypto \<Rightarrow> ('priv, 'pub) demo_state \<Rightarrow> ret_code_t \<times> ('priv, 'pub) demo_state" where
  "bob_ecdsa_verify L st =
     (nrf_crypto_ecdsa_verify L None (alice_public_key st) m_hash (length m_hash)
        (m_signature st) (m_signature_size st),
      emit [CALL ''nrf_crypto_ecdsa_verify''] st)"

definition bob_key_free ::
  "('priv, 'pub, 'ctx) nrf_crypto \<Rightarrow> ('priv, 'pub) demo_state \<Rightarrow> ret_code_t \<times> ('priv, 'pub) demo_state" where
  "bob_key_free L st =
     (let (err_code, key) = nrf_crypto_ecc_public_key_free L (alice_public_key st)
      in (err_code, emit [CALL ''nrf_crypto_ecc_public_key_free''] (st\<lparr>alice_public_key := key\<rparr>)))"

text \<open>The three-way branch on the result of the verification.\<close>

definition bob_handle_result ::
  "ret_code_t \<Rightarrow> ('priv, 'pub) demo_state \<Rightarrow> outcome \<times> ('priv, 'pub) demo_state" where
  "bob_handle_result err_code st =
     (if err_code = NRF_SUCCESS then
        (Returned, emit [LOG_INFO ''Signature is valid. Message is authentic.''] st)
      else if err_code = NRF_ERROR_CRYPTO_ECDSA_INVALID_SIGNATURE then
        (Returned, emit [LOG_WARNING ''Signature is invalid. Message is not authentic.''] st)
      else DEMO_ERROR_CHECK err_code st)"

definition bob_verify ::
  "('priv, 'pub, 'ctx) nrf_crypto \<Rightarrow> ('priv, 'pub) demo_state \<Rightarrow> outcome \<times> ('priv, 'pub) demo_state" where
  "bob_verify L st0 =
     (let st1 = emit [LOG_INFO ''Bob's message verification''] st0;
          (err1, st2) = bob_key_from_raw L st1
      in and_then (DEMO_ERROR_CHECK err1 st2) (\<lambda>st3.
         let (err2, st4) = bob_ecdsa_verify L st3
         in and_then (bob_handle_result err2 st4) (\<lambda>st5.
            let (err3, st6) = bob_key_free L st5
            in DEMO_ERROR_CHECK err3 st6)))"

subsection \<open>Example entry\<close>

text \<open>
  \<open>main\<close> up to its final idle loop \<open>for (;;)\<close>, which it never leaves: the outcome
  \<open>Returned\<close> means that the idle loop has been reached.
\<close>

definition log_init ::
  "('priv, 'pub, 'ctx) nrf_crypto \<Rightarrow> ('priv, 'pub) demo_state \<Rightarrow> outcome \<times> ('priv, 'pub) demo_state" where
  "log_init L st = APP_ERROR_CHECK (nrf_log_init L) st"

definition main ::
  "('priv, 'pub, 'ctx) nrf_crypto \<Rightarrow> ('priv, 'pub) demo_state \<Rightarrow> outcome \<times> ('priv, 'pub) demo_state" where
  "main L st0 =
     and_then (log_init L st0) (\<lambda>st1.
     and_then (DEMO_ERROR_CHECK (nrf_mem_init L) (emit [LOG_INFO (''ECDSA example started.'' @ CRLF)] st1)) (\<lambda>st2.
     and_then (DEMO_ERROR_CHECK (nrf_crypto_init L) st2) (\<lambda>st3.
     and_then (alice_sign L st3) (\<lambda>st4.
     and_then (bob_verify L st4) (\<lambda>st5.
       (Returned, emit [LOG_INFO ''ECDSA example executed successfully.''] st5))))))"

subsection \<open>A backend with canned answers\<close>

text \<open>
  To run the application on concrete inputs: a build with logging enabled and a backend
  whose key objects only record whether they hold a key, whose calls return fixed codes,
  and whose signing call writes a fixed signature into the buffer it is given.
\<close>

definition canned_crypto ::
  "ret_code_t \<Rightarrow> byte list \<Rightarrow> ret_code_t \<Rightarrow> ret_code_t \<Rightarrow> (bool, bool, unit) nrf_crypto" where
  "canned_crypto sign_code sig verify_code free_code =
     \<lparr> NRF_LOG_ENABLED = True,
       nrf_log_init = NRF_SUCCESS,
       nrf_mem_init = NRF_SUCCESS,
       nrf_crypto_init = NRF_SUCCESS,
       nrf_crypto_ecc_private_key_from_raw = (\<lambda>key raw n. (NRF_SUCCESS, True)),
       nrf_crypto_ecdsa_sign =
         (\<lambda>ctx key hash hash_size buf buf_size.
            (sign_code, take (length buf) sig @ drop (length sig) buf, min (length sig) buf_size)),
       nrf_crypto_ecc_private_key_free = (\<lambda>key. (free_code, False)),
       nrf_crypto_ecc_public_key_from_raw = (\<lambda>key raw n. (NRF_SUCCESS, True)),
       nrf_crypto_ecdsa_verify = (\<lambda>ctx key hash hash_size sig sig_size. verify_code),
       nrf_crypto_ecc_public_key_free = (\<lambda>key. (free_code, False)) \<rparr>"

text \<open>The statics after reset: zero-initialised.\<close>

definition power_on :: "(bool, bool) demo_state" where
  "power_on = \<lparr> m_signature = replicate 64 0, m_signature_size = 0,
                alice_private_key = False, alice_public_key = False, trace = [] \<rparr>"

subsection \<open>The size contract of the signing call\<close>

text \<open>
  \<open>nrf_crypto_ecdsa_sign\<close> is given the signature buffer and, in \<open>*p_signature_size\<close>,
  its capacity. A call keeps to the buffer when it leaves the buffer its length and,
  if it succeeds, reports a size within the capacity.
\<close>

definition sign_keeps_to_buffer ::
  "('priv, 'pub, 'ctx) nrf_crypto \<Rightarrow> 'ctx option \<Rightarrow> 'priv \<Rightarrow> byte list \<Rightarrow> nat \<Rightarrow> byte list \<Rightarrow> nat \<Rightarrow> bool" where
  "sign_keeps_to_buffer L p_context p_private_key p_hash hash_size p_signature signature_size =
     (case nrf_crypto_ecdsa_sign L p_context p_private_key p_hash hash_size p_signature signature_size of
        (err_code, sig, sig_size) \<Rightarrow>
          length sig = length p_signature \<and> (err_code = NRF_SUCCESS \<longrightarrow> sig_size \<le> signature_size))"

section \<open>The key encodings of the library\<close>

text \<open>
  \<open>nrf_crypto_ecc_private_key_from_raw\<close>, \<open>nrf_crypto_ecc_public_key_from_raw\<close> and their
  inverses are library functions whose bodies are not part of main.c. What follows is
  their specification (KeyMaterial, sections 3, 4.2, 4.3, 6 and 7), over the constants
  of main.c.
\<close>

text \<open>Modelled from the spec: the error taxonomy of the engine (section 7).\<close>

datatype error =
    InvalidKeyLength
  | InvalidScalarRange
  | PointNotOnCurve
  | InvalidSubgroup
  | InvalidOperand
  | MalformedSignature
  | EntropyUnavailable

text \<open>
  Modelled from the spec: a CurvePoint is a pair of field elements or the point at
  infinity; field elements and scalars are natural numbers. CurveParameters is the
  constant set \<open>{p, n, a, b, G}\<close> (section 3).
\<close>

datatype point = Infinity | Point nat nat

record curve_params =
  prime_p :: nat
  order_n :: nat
  coeff_a :: nat
  coeff_b :: nat
  base_G :: point

text \<open>
  Modelled from the spec: the parameters of P-256. The specification names the curve and
  leaves the numbers to the standard (FIPS 186-4, D.1.2.3).
\<close>

definition secp256r1 :: curve_params where
  "secp256r1 =
     \<lparr> prime_p = 0xffffffff00000001000000000000000000000000ffffffffffffffffffffffff,
       order_n = 0xffffffff00000000ffffffffffffffffbce6faada7179e84f3b9cac2fc632551,
       coeff_a = 0xffffffff00000001000000000000000000000000fffffffffffffffffffffffc,
       coeff_b = 0x5ac635d8aa3a93e7b3ebbd55769886bc651d06b0cc53b0f63bce3c3e27d2604b,
       base_G = Point 0x6b17d1f2e12c4247f8bce6e563a440f277037d812deb33a0f4a13945d898c296
                      0x4fe342e2fe1a7f9b8ee7eb4a7c0f9e162bce33576b315ececbb6406837bf51f5 \<rparr>"

text \<open>
  Modelled from the spec: numbers are encoded big-endian in a fixed number of bytes
  (section 6).
\<close>

definition be_decode :: "byte list \<Rightarrow> nat" where
  "be_decode bs = foldl (\<lambda>acc b. acc * 256 + unat b) 0 bs"

fun be_encode :: "nat \<Rightarrow> nat \<Rightarrow> byte list" where
  "be_encode 0 v = []"
| "be_encode (Suc len) v = be_encode len (v div 256) @ [of_nat (v mod 256)]"

text \<open>
  Modelled from the spec: point validation (section 4.2): coordinates reduced modulo
  \<open>p\<close>, curve equation \<open>y\<^sup>2 = x\<^sup>3 + a x + b\<close> satisfied modulo \<open>p\<close>, not the point at
  infinity. The order check, which the specification recommends and does not require,
  is not made, so that \<open>InvalidSubgroup\<close> is never reported.
\<close>

definition on_curve :: "curve_params \<Rightarrow> nat \<Rightarrow> nat \<Rightarrow> bool" where
  "on_curve cp x y \<longleftrightarrow>
     x < prime_p cp \<and> y < prime_p cp \<and>
     (y * y) mod prime_p cp = (x * x * x + coeff_a cp * x + coeff_b cp) mod prime_p cp"

definition validate_point :: "curve_params \<Rightarrow> point \<Rightarrow> error + point" where
  "validate_point cp P =
     (case P of
        Infinity \<Rightarrow> Inl PointNotOnCurve
      | Point x y \<Rightarrow> if on_curve cp x y then Inr P else Inl PointNotOnCurve)"

text \<open>
  Modelled from the spec: a private key is a scalar in \<open>[1, n-1]\<close>, imported from its
  32-byte big-endian encoding: \<open>InvalidKeyLength\<close> if the length is not 32,
  \<open>InvalidScalarRange\<close> if the value is 0 or at least \<open>n\<close> (section 4.3). The export
  is the encoding in 32 bytes.
\<close>

definition importPrivateKey :: "curve_params \<Rightarrow> byte list \<Rightarrow> error + nat" where
  "importPrivateKey cp bytes =
     (if length bytes \<noteq> 32 then Inl InvalidKeyLength
      else if be_decode bytes = 0 \<or> order_n cp \<le> be_decode bytes then Inl InvalidScalarRange
      else Inr (be_decode bytes))"

definition exportPrivateKey :: "nat \<Rightarrow> byte list" where
  "exportPrivateKey d = be_encode 32 d"

text \<open>
  Modelled from the spec: a public key is encoded in 65 bytes: one tag byte of a fixed
  value that marks the uncompressed form, the 32-byte big-endian X and the 32-byte
  big-endian Y (sections 4.3 and 6). The specification does not give the value of the
  tag, which is a parameter here, and names no error of its own for a wrong tag: the
  import reports \<open>InvalidKeyLength\<close> for the encoding and leaves the rest to point
  validation. A public key is never the point at infinity, for which nothing is
  exported.
\<close>

definition importPublicKey :: "curve_params \<Rightarrow> byte \<Rightarrow> byte list \<Rightarrow> error + point" where
  "importPublicKey cp tag bytes =
     (if length bytes \<noteq> 65 \<or> hd bytes \<noteq> tag then Inl InvalidKeyLength
      else validate_point cp
             (Point (be_decode (take 32 (tl bytes))) (be_decode (drop 32 (tl bytes)))))"

definition exportPublicKey :: "byte \<Rightarrow> point \<Rightarrow> byte list" where
  "exportPublicKey tag Q =
     (case Q of
        Infinity \<Rightarrow> []
      | Point x y \<Rightarrow> tag # be_encode 32 x @ be_encode 32 y)"

section \<open>Properties of the application\<close>

lemma and_then_Returned [simp]: "and_then (Returned, st) f = f st"
  by (simp add: and_then_def)

lemma and_then_Fatal [simp]: "and_then (Fatal e, st) f = (Fatal e, st)"
  by (simp add: and_then_def)

lemma DEMO_ERROR_CHECK_success [simp]: "DEMO_ERROR_CHECK NRF_SUCCESS st = (Returned, st)"
  by (simp add: DEMO_ERROR_CHECK_def)

lemma DEMO_ERROR_CHECK_failure:
  "e \<noteq> NRF_SUCCESS \<Longrightarrow>
   DEMO_ERROR_CHECK e st = (Fatal e, emit [LOG_ERROR e, APP_ERROR_HANDLER e] st)"
  by (simp add: DEMO_ERROR_CHECK_def APP_ERROR_CHECK_def emit_def)

lemma DEMO_ERROR_CHECK_Returned_iff:
  "DEMO_ERROR_CHECK e st = (Returned, st') \<longleftrightarrow> e = NRF_SUCCESS \<and> st' = st"
  by (auto simp add: DEMO_ERROR_CHECK_def APP_ERROR_CHECK_def)

text \<open>
  Claim C8. In \<open>bob_verify\<close>, once the public key is imported, the result
  \<open>NRF_ERROR_CRYPTO_ECDSA_INVALID_SIGNATURE\<close> of \<open>nrf_crypto_ecdsa_verify\<close> is not fatal:
  the warning is logged, the public key is freed, and the function ends with the error
  check of that free (it returns when the free succeeded). Every other code that is not
  \<open>NRF_SUCCESS\<close> is logged and handed to the fatal error handler, and the key is not
  freed.
\<close>

theorem bob_verify_result_handling:
  assumes imp: "nrf_crypto_ecc_public_key_from_raw L (alice_public_key st)
                  m_alice_raw_public_key (length m_alice_raw_public_key) = (NRF_SUCCESS, pub)"
      and ver: "nrf_crypto_ecdsa_verify L None pub m_hash (length m_hash)
                  (m_signature st) (m_signature_size st) = v"
      and fre: "nrf_crypto_ecc_public_key_free L pub = (err, pub')"
  shows "(v = NRF_ERROR_CRYPTO_ECDSA_INVALID_SIGNATURE \<longrightarrow>
            bob_verify L st =
              DEMO_ERROR_CHECK err
                (st\<lparr>alice_public_key := pub',
                    trace := trace st @
                      [LOG_INFO ''Bob's message verification'',
                       CALL ''nrf_crypto_ecc_public_key_from_raw'',
                       CALL ''nrf_crypto_ecdsa_verify'',
                       LOG_WARNING ''Signature is invalid. Message is not authentic.'',
                       CALL ''nrf_crypto_ecc_public_key_free'']\<rparr>)) \<and>
         (v \<noteq> NRF_SUCCESS \<and> v \<noteq> NRF_ERROR_CRYPTO_ECDSA_INVALID_SIGNATURE \<longrightarrow>
            bob_verify L st =
              (Fatal v,
               st\<lparr>alice_public_key := pub,
                  trace := trace st @
                    [LOG_INFO ''Bob's message verification'',
                     CALL ''nrf_crypto_ecc_public_key_from_raw'',
                     CALL ''nrf_crypto_ecdsa_verify'',
                     LOG_ERROR v,
                     APP_ERROR_HANDLER v]\<rparr>))"
  using imp ver fre
  by (simp add: bob_verify_def bob_key_from_raw_def bob_ecdsa_verify_def bob_handle_result_def
      bob_key_free_def emit_def DEMO_ERROR_CHECK_failure)

theorem bob_verify_result_handling_witness:
  "bob_verify (canned_crypto NRF_SUCCESS [] NRF_ERROR_CRYPTO_ECDSA_INVALID_SIGNATURE NRF_SUCCESS) power_on =
     (Returned,
      power_on\<lparr>alice_public_key := False,
               trace := [LOG_INFO ''Bob's message verification'',
                         CALL ''nrf_crypto_ecc_public_key_from_raw'',
                         CALL ''nrf_crypto_ecdsa_verify'',
                         LOG_WARNING ''Signature is invalid. Message is not authentic.'',
                         CALL ''nrf_crypto_ecc_public_key_free'']\<rparr>) \<and>
   bob_verify (canned_crypto NRF_SUCCESS [] (NRF_ERROR 0x8502) NRF_SUCCESS) power_on =
     (Fatal (NRF_ERROR 0x8502),
      power_on\<lparr>alice_public_key := True,
               trace := [LOG_INFO ''Bob's message verification'',
                         CALL ''nrf_crypto_ecc_public_key_from_raw'',
                         CALL ''nrf_crypto_ecdsa_verify'',
                         LOG_ERROR (NRF_ERROR 0x8502),
                         APP_ERROR_HANDLER (NRF_ERROR 0x8502)]\<rparr>)"
  using bob_verify_result_handling
          [of "canned_crypto NRF_SUCCESS [] NRF_ERROR_CRYPTO_ECDSA_INVALID_SIGNATURE NRF_SUCCESS"
              power_on True NRF_ERROR_CRYPTO_ECDSA_INVALID_SIGNATURE NRF_SUCCESS False]
        bob_verify_result_handling
          [of "canned_crypto NRF_SUCCESS [] (NRF_ERROR 0x8502) NRF_SUCCESS"
              power_on True "NRF_ERROR 0x8502" NRF_SUCCESS False]
  by (simp add: canned_crypto_def power_on_def)

lemma and_then_Returned_iff:
  "and_then r f = (Returned, st') \<longleftrightarrow> (\<exists>st. r = (Returned, st) \<and> f st = (Returned, st'))"
  by (cases r; cases "fst r") (auto simp add: and_then_def)

lemma dump_within_array:
  "n \<le> length a \<Longrightarrow>
   map (\<lambda>i. LOG_RAW_HEX (read_byte a i)) [0..<n] = map (\<lambda>b. LOG_RAW_HEX (Some b)) (take n a)"
  by (rule nth_equalityI) (simp_all add: read_byte_def)

text \<open>\<open>print_hex\<close> only appends to the trace.\<close>

lemma print_hex_trace:
  "print_hex L p_msg p_data n st =
     st\<lparr>trace := trace st @ [LOG_INFO p_msg] @
        (if NRF_LOG_ENABLED L
         then LOG_RAW_INFO ''    '' # map (\<lambda>i. LOG_RAW_HEX (read_byte p_data i)) [0..<n] else []) @
        [LOG_RAW_INFO CRLF]\<rparr>"
  by (simp add: print_hex_def print_array_def emit_def)

text \<open>\<open>bob_verify\<close> neither reads nor writes the private key object.\<close>

lemma bob_verify_private_key_frame:
  "bob_verify L (st\<lparr>alice_private_key := k\<rparr>) =
     map_prod id (\<lambda>s. s\<lparr>alice_private_key := k\<rparr>) (bob_verify L st)"
proof -
  obtain e1 pub where i: "nrf_crypto_ecc_public_key_from_raw L (alice_public_key st)
             m_alice_raw_public_key (length m_alice_raw_public_key) = (e1, pub)"
    by (cases "nrf_crypto_ecc_public_key_from_raw L (alice_public_key st)
             m_alice_raw_public_key (length m_alice_raw_public_key)") auto
  obtain e3 pub' where f: "nrf_crypto_ecc_public_key_free L pub = (e3, pub')"
    by (cases "nrf_crypto_ecc_public_key_free L pub") auto
  show ?thesis
    using i f
    by (simp add: bob_verify_def bob_key_from_raw_def bob_ecdsa_verify_def bob_handle_result_def
          bob_key_free_def emit_def and_then_def DEMO_ERROR_CHECK_def APP_ERROR_CHECK_def)
qed

text \<open>\<open>bob_verify\<close> does not write the signature or its size.\<close>

lemma bob_verify_signature_frame:
  "m_signature (snd (bob_verify L st)) = m_signature st \<and>
   m_signature_size (snd (bob_verify L st)) = m_signature_size st"
proof -
  obtain e1 pub where i: "nrf_crypto_ecc_public_key_from_raw L (alice_public_key st)
             m_alice_raw_public_key (length m_alice_raw_public_key) = (e1, pub)"
    by (cases "nrf_crypto_ecc_public_key_from_raw L (alice_public_key st)
             m_alice_raw_public_key (length m_alice_raw_public_key)") auto
  obtain e3 pub' where f: "nrf_crypto_ecc_public_key_free L pub = (e3, pub')"
    by (cases "nrf_crypto_ecc_public_key_free L pub") auto
  show ?thesis
    using i f
    by (simp add: bob_verify_def bob_key_from_raw_def bob_ecdsa_verify_def bob_handle_result_def
          bob_key_free_def emit_def and_then_def DEMO_ERROR_CHECK_def APP_ERROR_CHECK_def)
qed

text \<open>
  Claim C9. Let the signing call of \<open>alice_sign\<close> keep to its buffer, and let
  \<open>m_signature\<close> have its declared size. When \<open>alice_sign\<close> returns, all three library calls succeeded, in the
  order import, sign, free. The final state is the initial one with \<open>m_signature\<close> and
  \<open>m_signature_size\<close> as the sign call wrote them (the size within the buffer), the key
  object as the free left it, and the trace extended by the calls and the two dumps:
  the signature is stored and printed before the key is freed, and the free changes the
  key object only. For the subsequent \<open>bob_verify\<close>, whatever the private key object
  holds by then: it behaves as on the state \<open>alice_sign\<close> left, up to that object; once
  the public key is imported, its result is the handling of the code that
  \<open>nrf_crypto_ecdsa_verify\<close> returns for exactly these signature bytes and this size; and
  it leaves the signature and its size as they are.
\<close>

theorem alice_sign_signature_outlives_key:
  assumes ret: "alice_sign L st0 = (Returned, st1)"
      and buf: "sign_keeps_to_buffer L None
                  (snd (nrf_crypto_ecc_private_key_from_raw L (alice_private_key st0)
                          m_alice_raw_private_key (length m_alice_raw_private_key)))
                  m_hash (length m_hash) (m_signature st0) sizeof_m_signature"
      and arr: "length (m_signature st0) = sizeof_m_signature"
  shows "\<exists>key sig n key'.
           nrf_crypto_ecc_private_key_from_raw L (alice_private_key st0)
             m_alice_raw_private_key (length m_alice_raw_private_key) = (NRF_SUCCESS, key) \<and>
           nrf_crypto_ecdsa_sign L None key m_hash (length m_hash)
             (m_signature st0) sizeof_m_signature = (NRF_SUCCESS, sig, n) \<and>
           nrf_crypto_ecc_private_key_free L key = (NRF_SUCCESS, key') \<and>
           length sig = sizeof_m_signature \<and> n \<le> sizeof_m_signature \<and>
           st1 = st0\<lparr>m_signature := sig, m_signature_size := n, alice_private_key := key',
                    trace := trace st0 @
                      [LOG_INFO ''Alice's signature generation'',
                       CALL ''nrf_crypto_ecc_private_key_from_raw'',
                       CALL ''nrf_crypto_ecdsa_sign'',
                       LOG_INFO ''Alice's message hash: ''] @
                      (if NRF_LOG_ENABLED L
                       then LOG_RAW_INFO ''    '' # map (\<lambda>b. LOG_RAW_HEX (Some b)) m_hash else []) @
                      [LOG_RAW_INFO CRLF,
                       LOG_INFO ''Alice's signature: ''] @
                      (if NRF_LOG_ENABLED L
                       then LOG_RAW_INFO ''    '' # map (\<lambda>b. LOG_RAW_HEX (Some b)) (take n sig) else []) @
                      [LOG_RAW_INFO CRLF,
                       CALL ''nrf_crypto_ecc_private_key_free'']\<rparr> \<and>
           (\<forall>k. bob_verify L (st1\<lparr>alice_private_key := k\<rparr>) =
                  map_prod id (\<lambda>s. s\<lparr>alice_private_key := k\<rparr>) (bob_verify L st1)) \<and>
           (\<forall>k pub.
              nrf_crypto_ecc_public_key_from_raw L (alice_public_key st0)
                m_alice_raw_public_key (length m_alice_raw_public_key) = (NRF_SUCCESS, pub) \<longrightarrow>
              bob_verify L (st1\<lparr>alice_private_key := k\<rparr>) =
                and_then
                  (bob_handle_result
                     (nrf_crypto_ecdsa_verify L None pub m_hash (length m_hash) sig n)
                     (st1\<lparr>alice_private_key := k, alice_public_key := pub,
                         trace := trace st1 @
                           [LOG_INFO ''Bob's message verification'',
                            CALL ''nrf_crypto_ecc_public_key_from_raw'',
                            CALL ''nrf_crypto_ecdsa_verify'']\<rparr>))
                  (\<lambda>st5. DEMO_ERROR_CHECK (fst (nrf_crypto_ecc_public_key_free L pub))
                           (st5\<lparr>alice_public_key := snd (nrf_crypto_ecc_public_key_free L pub),
                               trace := trace st5 @ [CALL ''nrf_crypto_ecc_public_key_free'']\<rparr>))) \<and>
           (\<forall>k. m_signature (snd (bob_verify L (st1\<lparr>alice_private_key := k\<rparr>))) = sig \<and>
                m_signature_size (snd (bob_verify L (st1\<lparr>alice_private_key := k\<rparr>))) = n)"
proof -
  obtain e1 key where k: "nrf_crypto_ecc_private_key_from_raw L (alice_private_key st0)
             m_alice_raw_private_key (length m_alice_raw_private_key) = (e1, key)"
    by (cases "nrf_crypto_ecc_private_key_from_raw L (alice_private_key st0)
             m_alice_raw_private_key (length m_alice_raw_private_key)") auto
  obtain e2 sig n where s: "nrf_crypto_ecdsa_sign L None key m_hash (length m_hash)
             (m_signature st0) sizeof_m_signature = (e2, sig, n)"
    by (cases "nrf_crypto_ecdsa_sign L None key m_hash (length m_hash)
             (m_signature st0) sizeof_m_signature") auto
  obtain e3 key' where f: "nrf_crypto_ecc_private_key_free L key = (e3, key')"
    by (cases "nrf_crypto_ecc_private_key_free L key") auto
  from ret k s f have e: "e1 = NRF_SUCCESS \<and> e2 = NRF_SUCCESS \<and> e3 = NRF_SUCCESS"
    by (auto simp add: alice_sign_def alice_key_from_raw_def alice_ecdsa_sign_def
          alice_key_free_def print_hex_trace emit_def Let_def
          and_then_Returned_iff DEMO_ERROR_CHECK_Returned_iff)
  from buf k s e arr
  have len: "length sig = sizeof_m_signature" and n: "n \<le> sizeof_m_signature"
    by (simp_all add: sign_keeps_to_buffer_def)
  from n len have nlen: "n \<le> length sig" by simp
  have hash_dump: "map (\<lambda>i. LOG_RAW_HEX (read_byte m_hash i)) [0..<length m_hash] =
      map (\<lambda>b. LOG_RAW_HEX (Some b)) m_hash"
    using dump_within_array [of "length m_hash" m_hash] by simp
  from k s f e have run: "alice_sign L st0 = (Returned, st0\<lparr>m_signature := sig, m_signature_size := n,
      alice_private_key := key',
      trace := trace st0 @
                      [LOG_INFO ''Alice's signature generation'',
                       CALL ''nrf_crypto_ecc_private_key_from_raw'',
                       CALL ''nrf_crypto_ecdsa_sign'',
                       LOG_INFO ''Alice's message hash: ''] @
                      (if NRF_LOG_ENABLED L
                       then LOG_RAW_INFO ''    '' # map (\<lambda>b. LOG_RAW_HEX (Some b)) m_hash else []) @
                      [LOG_RAW_INFO CRLF,
                       LOG_INFO ''Alice's signature: ''] @
                      (if NRF_LOG_ENABLED L
                       then LOG_RAW_INFO ''    '' # map (\<lambda>b. LOG_RAW_HEX (Some b)) (take n sig) else []) @
                      [LOG_RAW_INFO CRLF,
                       CALL ''nrf_crypto_ecc_private_key_free'']\<rparr>)"
    by (cases "NRF_LOG_ENABLED L")
      (simp_all add: alice_sign_def alice_key_from_raw_def alice_ecdsa_sign_def
          alice_key_free_def print_hex_trace emit_def Let_def hash_dump
          dump_within_array [OF nlen])
  from ret have st1: "st1 = st0\<lparr>m_signature := sig, m_signature_size := n,
      alice_private_key := key',
      trace := trace st0 @
                      [LOG_INFO ''Alice's signature generation'',
                       CALL ''nrf_crypto_ecc_private_key_from_raw'',
                       CALL ''nrf_crypto_ecdsa_sign'',
                       LOG_INFO ''Alice's message hash: ''] @
                      (if NRF_LOG_ENABLED L
                       then LOG_RAW_INFO ''    '' # map (\<lambda>b. LOG_RAW_HEX (Some b)) m_hash else []) @
                      [LOG_RAW_INFO CRLF,
                       LOG_INFO ''Alice's signature: ''] @
                      (if NRF_LOG_ENABLED L
                       then LOG_RAW_INFO ''    '' # map (\<lambda>b. LOG_RAW_HEX (Some b)) (take n sig) else []) @
                      [LOG_RAW_INFO CRLF,
                       CALL ''nrf_crypto_ecc_private_key_free'']\<rparr>"
    unfolding run by simp
  have pubkey: "alice_public_key st1 = alice_public_key st0"
    and sig1: "m_signature st1 = sig" and n1: "m_signature_size st1 = n"
    by (simp_all add: st1)
  have call: "\<And>k pub.
      nrf_crypto_ecc_public_key_from_raw L (alice_public_key st0)
        m_alice_raw_public_key (length m_alice_raw_public_key) = (NRF_SUCCESS, pub) \<Longrightarrow>
      bob_verify L (st1\<lparr>alice_private_key := k\<rparr>) =
        and_then
          (bob_handle_result
             (nrf_crypto_ecdsa_verify L None pub m_hash (length m_hash) sig n)
             (st1\<lparr>alice_private_key := k, alice_public_key := pub,
                 trace := trace st1 @
                   [LOG_INFO ''Bob's message verification'',
                    CALL ''nrf_crypto_ecc_public_key_from_raw'',
                    CALL ''nrf_crypto_ecdsa_verify'']\<rparr>))
          (\<lambda>st5. DEMO_ERROR_CHECK (fst (nrf_crypto_ecc_public_key_free L pub))
                   (st5\<lparr>alice_public_key := snd (nrf_crypto_ecc_public_key_free L pub),
                       trace := trace st5 @ [CALL ''nrf_crypto_ecc_public_key_free'']\<rparr>))"
  proof -
    fix k pub
    assume i: "nrf_crypto_ecc_public_key_from_raw L (alice_public_key st0)
        m_alice_raw_public_key (length m_alice_raw_public_key) = (NRF_SUCCESS, pub)"
    obtain e4 pub' where g: "nrf_crypto_ecc_public_key_free L pub = (e4, pub')"
      by (cases "nrf_crypto_ecc_public_key_free L pub") auto
    show "bob_verify L (st1\<lparr>alice_private_key := k\<rparr>) =
        and_then
          (bob_handle_result
             (nrf_crypto_ecdsa_verify L None pub m_hash (length m_hash) sig n)
             (st1\<lparr>alice_private_key := k, alice_public_key := pub,
                 trace := trace st1 @
                   [LOG_INFO ''Bob's message verification'',
                    CALL ''nrf_crypto_ecc_public_key_from_raw'',
                    CALL ''nrf_crypto_ecdsa_verify'']\<rparr>))
          (\<lambda>st5. DEMO_ERROR_CHECK (fst (nrf_crypto_ecc_public_key_free L pub))
                   (st5\<lparr>alice_public_key := snd (nrf_crypto_ecc_public_key_free L pub),
                       trace := trace st5 @ [CALL ''nrf_crypto_ecc_public_key_free'']\<rparr>))"
      using i g pubkey sig1 n1
      by (simp add: bob_verify_def bob_key_from_raw_def bob_ecdsa_verify_def
            bob_handle_result_def bob_key_free_def emit_def and_then_def
            DEMO_ERROR_CHECK_def APP_ERROR_CHECK_def)
  qed
  have keep: "\<And>k. m_signature (snd (bob_verify L (st1\<lparr>alice_private_key := k\<rparr>))) = sig \<and>
                m_signature_size (snd (bob_verify L (st1\<lparr>alice_private_key := k\<rparr>))) = n"
    using bob_verify_signature_frame [of L] sig1 n1 by simp
  show ?thesis
    using k s f e len n st1 call keep bob_verify_private_key_frame [of L]
    by blast
qed

theorem alice_sign_signature_outlives_key_witness:
  "sign_keeps_to_buffer (canned_crypto NRF_SUCCESS (replicate 64 0x5a) NRF_SUCCESS NRF_SUCCESS)
     None True m_hash (length m_hash) (m_signature power_on) sizeof_m_signature \<and>
   alice_sign (canned_crypto NRF_SUCCESS (replicate 64 0x5a) NRF_SUCCESS NRF_SUCCESS) power_on =
     (Returned,
      power_on\<lparr>m_signature := replicate 64 0x5a, m_signature_size := 64,
               alice_private_key := False,
               trace := [LOG_INFO ''Alice's signature generation'',
                         CALL ''nrf_crypto_ecc_private_key_from_raw'',
                         CALL ''nrf_crypto_ecdsa_sign'',
                         LOG_INFO ''Alice's message hash: '',
                         LOG_RAW_INFO ''    ''] @
                        map (\<lambda>b. LOG_RAW_HEX (Some b)) m_hash @
                        [LOG_RAW_INFO CRLF,
                         LOG_INFO ''Alice's signature: '',
                         LOG_RAW_INFO ''    ''] @
                        replicate 64 (LOG_RAW_HEX (Some 0x5a)) @
                        [LOG_RAW_INFO CRLF,
                         CALL ''nrf_crypto_ecc_private_key_free'']\<rparr>) \<and>
   bob_verify (canned_crypto NRF_SUCCESS (replicate 64 0x5a) NRF_SUCCESS NRF_SUCCESS)
     (snd (alice_sign (canned_crypto NRF_SUCCESS (replicate 64 0x5a) NRF_SUCCESS NRF_SUCCESS) power_on)
        \<lparr>alice_private_key := True\<rparr>) =
     (Returned,
      power_on\<lparr>m_signature := replicate 64 0x5a, m_signature_size := 64,
               alice_private_key := True,
               trace := [LOG_INFO ''Alice's signature generation'',
                         CALL ''nrf_crypto_ecc_private_key_from_raw'',
                         CALL ''nrf_crypto_ecdsa_sign'',
                         LOG_INFO ''Alice's message hash: '',
                         LOG_RAW_INFO ''    ''] @
                        map (\<lambda>b. LOG_RAW_HEX (Some b)) m_hash @
                        [LOG_RAW_INFO CRLF,
                         LOG_INFO ''Alice's signature: '',
                         LOG_RAW_INFO ''    ''] @
                        replicate 64 (LOG_RAW_HEX (Some 0x5a)) @
                        [LOG_RAW_INFO CRLF,
                         CALL ''nrf_crypto_ecc_private_key_free'',
                         LOG_INFO ''Bob's message verification'',
                         CALL ''nrf_crypto_ecc_public_key_from_raw'',
                         CALL ''nrf_crypto_ecdsa_verify'',
                         LOG_INFO ''Signature is valid. Message is authentic.'',
                         CALL ''nrf_crypto_ecc_public_key_free'']\<rparr>)"
proof -
  let ?L = "canned_crypto NRF_SUCCESS (replicate 64 0x5a) NRF_SUCCESS NRF_SUCCESS"
  have r: "alice_sign ?L power_on = (Returned, snd (alice_sign ?L power_on))"
    by (simp add: alice_sign_def alice_key_from_raw_def alice_ecdsa_sign_def
          alice_key_free_def Let_def canned_crypto_def)
  have b: "sign_keeps_to_buffer ?L None True m_hash (length m_hash)
             (m_signature power_on) sizeof_m_signature"
    by (simp add: sign_keeps_to_buffer_def canned_crypto_def power_on_def sizeof_m_signature_def)
  have b': "sign_keeps_to_buffer ?L None
             (snd (nrf_crypto_ecc_private_key_from_raw ?L (alice_private_key power_on)
                     m_alice_raw_private_key (length m_alice_raw_private_key)))
             m_hash (length m_hash) (m_signature power_on) sizeof_m_signature"
    using b by (simp add: canned_crypto_def)
  have a: "length (m_signature power_on) = sizeof_m_signature"
    by (simp add: power_on_def sizeof_m_signature_def)
  from alice_sign_signature_outlives_key [OF r b' a]
  obtain key sig n key' where
        s: "nrf_crypto_ecdsa_sign ?L None key m_hash (length m_hash)
              (m_signature power_on) sizeof_m_signature = (NRF_SUCCESS, sig, n)"
    and f: "nrf_crypto_ecc_private_key_free ?L key = (NRF_SUCCESS, key')"
    and st: "snd (alice_sign ?L power_on) =
           power_on\<lparr>m_signature := sig, m_signature_size := n, alice_private_key := key',
                    trace := trace power_on @
                      [LOG_INFO ''Alice's signature generation'',
                       CALL ''nrf_crypto_ecc_private_key_from_raw'',
                       CALL ''nrf_crypto_ecdsa_sign'',
                       LOG_INFO ''Alice's message hash: ''] @
                      (if NRF_LOG_ENABLED ?L
                       then LOG_RAW_INFO ''    '' # map (\<lambda>b. LOG_RAW_HEX (Some b)) m_hash else []) @
                      [LOG_RAW_INFO CRLF,
                       LOG_INFO ''Alice's signature: ''] @
                      (if NRF_LOG_ENABLED ?L
                       then LOG_RAW_INFO ''    '' # map (\<lambda>b. LOG_RAW_HEX (Some b)) (take n sig) else []) @
                      [LOG_RAW_INFO CRLF,
                       CALL ''nrf_crypto_ecc_private_key_free'']\<rparr>"
    and v: "\<forall>k pub.
              nrf_crypto_ecc_public_key_from_raw ?L (alice_public_key power_on)
                m_alice_raw_public_key (length m_alice_raw_public_key) = (NRF_SUCCESS, pub) \<longrightarrow>
              bob_verify ?L (snd (alice_sign ?L power_on)\<lparr>alice_private_key := k\<rparr>) =
                and_then
                  (bob_handle_result
                     (nrf_crypto_ecdsa_verify ?L None pub m_hash (length m_hash) sig n)
                     (snd (alice_sign ?L power_on)\<lparr>alice_private_key := k, alice_public_key := pub,
                         trace := trace (snd (alice_sign ?L power_on)) @
                           [LOG_INFO ''Bob's message verification'',
                            CALL ''nrf_crypto_ecc_public_key_from_raw'',
                            CALL ''nrf_crypto_ecdsa_verify'']\<rparr>))
                  (\<lambda>st5. DEMO_ERROR_CHECK (fst (nrf_crypto_ecc_public_key_free ?L pub))
                           (st5\<lparr>alice_public_key := snd (nrf_crypto_ecc_public_key_free ?L pub),
                               trace := trace st5 @ [CALL ''nrf_crypto_ecc_public_key_free'']\<rparr>))"
    by blast
  from s have sig: "sig = replicate 64 0x5a" and n: "n = 64"
    by (simp_all add: canned_crypto_def power_on_def sizeof_m_signature_def)
  from f have key': "key' = False"
    by (simp add: canned_crypto_def)
  have log: "NRF_LOG_ENABLED ?L"
    by (simp add: canned_crypto_def)
  have st': "snd (alice_sign ?L power_on) =
      power_on\<lparr>m_signature := replicate 64 0x5a, m_signature_size := 64,
               alice_private_key := False,
               trace := [LOG_INFO ''Alice's signature generation'',
                         CALL ''nrf_crypto_ecc_private_key_from_raw'',
                         CALL ''nrf_crypto_ecdsa_sign'',
                         LOG_INFO ''Alice's message hash: '',
                         LOG_RAW_INFO ''    ''] @
                        map (\<lambda>b. LOG_RAW_HEX (Some b)) m_hash @
                        [LOG_RAW_INFO CRLF,
                         LOG_INFO ''Alice's signature: '',
                         LOG_RAW_INFO ''    ''] @
                        replicate 64 (LOG_RAW_HEX (Some 0x5a)) @
                        [LOG_RAW_INFO CRLF,
                         CALL ''nrf_crypto_ecc_private_key_free'']\<rparr>"
    unfolding st sig n key' using log by (simp add: power_on_def)
  have i: "nrf_crypto_ecc_public_key_from_raw ?L (alice_public_key power_on)
                m_alice_raw_public_key (length m_alice_raw_public_key) = (NRF_SUCCESS, True)"
    by (simp add: canned_crypto_def)
  have c: "nrf_crypto_ecdsa_verify ?L None True m_hash (length m_hash) sig n = NRF_SUCCESS"
    and g: "nrf_crypto_ecc_public_key_free ?L True = (NRF_SUCCESS, False)"
    by (simp_all add: canned_crypto_def)
  from v [rule_format, OF i, of True]
  have "bob_verify ?L (snd (alice_sign ?L power_on)\<lparr>alice_private_key := True\<rparr>) =
      (Returned,
       snd (alice_sign ?L power_on)\<lparr>alice_private_key := True, alice_public_key := False,
         trace := trace (snd (alice_sign ?L power_on)) @
                        [LOG_INFO ''Bob's message verification'',
                         CALL ''nrf_crypto_ecc_public_key_from_raw'',
                         CALL ''nrf_crypto_ecdsa_verify'',
                         LOG_INFO ''Signature is valid. Message is authentic.'',
                         CALL ''nrf_crypto_ecc_public_key_free'']\<rparr>)"
    by (simp add: c g bob_handle_result_def emit_def)
  hence bv: "bob_verify ?L (snd (alice_sign ?L power_on)\<lparr>alice_private_key := True\<rparr>) =
     (Returned,
      power_on\<lparr>m_signature := replicate 64 0x5a, m_signature_size := 64,
               alice_private_key := True,
               trace := [LOG_INFO ''Alice's signature generation'',
                         CALL ''nrf_crypto_ecc_private_key_from_raw'',
                         CALL ''nrf_crypto_ecdsa_sign'',
                         LOG_INFO ''Alice's message hash: '',
                         LOG_RAW_INFO ''    ''] @
                        map (\<lambda>b. LOG_RAW_HEX (Some b)) m_hash @
                        [LOG_RAW_INFO CRLF,
                         LOG_INFO ''Alice's signature: '',
                         LOG_RAW_INFO ''    ''] @
                        replicate 64 (LOG_RAW_HEX (Some 0x5a)) @
                        [LOG_RAW_INFO CRLF,
                         CALL ''nrf_crypto_ecc_private_key_free'',
                         LOG_INFO ''Bob's message verification'',
                         CALL ''nrf_crypto_ecc_public_key_from_raw'',
                         CALL ''nrf_crypto_ecdsa_verify'',
                         LOG_INFO ''Signature is valid. Message is authentic.'',
                         CALL ''nrf_crypto_ecc_public_key_free'']\<rparr>)"
    unfolding st' by (simp add: power_on_def)
  from r st' have "alice_sign ?L power_on =
     (Returned,
      power_on\<lparr>m_signature := replicate 64 0x5a, m_signature_size := 64,
               alice_private_key := False,
               trace := [LOG_INFO ''Alice's signature generation'',
                         CALL ''nrf_crypto_ecc_private_key_from_raw'',
                         CALL ''nrf_crypto_ecdsa_sign'',
                         LOG_INFO ''Alice's message hash: '',
                         LOG_RAW_INFO ''    ''] @
                        map (\<lambda>b. LOG_RAW_HEX (Some b)) m_hash @
                        [LOG_RAW_INFO CRLF,
                         LOG_INFO ''Alice's signature: '',
                         LOG_RAW_INFO ''    ''] @
                        replicate 64 (LOG_RAW_HEX (Some 0x5a)) @
                        [LOG_RAW_INFO CRLF,
                         CALL ''nrf_crypto_ecc_private_key_free'']\<rparr>)"
    by simp
  with b bv show ?thesis by blast
qed

subsection \<open>Round trip of the key encodings\<close>

lemma be_decode_snoc: "be_decode (bs @ [b]) = be_decode bs * 256 + unat b"
  by (simp add: be_decode_def)

lemma length_be_encode [simp]: "length (be_encode len v) = len"
  by (induction len arbitrary: v) simp_all

lemma be_encode_decode: "be_encode (length bs) (be_decode bs) = bs"
proof (induction bs rule: rev_induct)
  case Nil
  show ?case by simp
next
  case (snoc b bs)
  have lt: "unat b < 256" using unsigned_less [of b, where ?'a = nat] by simp
  then have "(be_decode bs * 256 + unat b) div 256 = be_decode bs"
    by simp
  moreover from lt have "(be_decode bs * 256 + unat b) mod 256 = unat b"
    by simp
  ultimately show ?case using snoc by (simp add: be_decode_snoc)
qed

lemma importPrivateKey_Inr:
  "importPrivateKey cp raw = Inr d \<longleftrightarrow>
     length raw = 32 \<and> d = be_decode raw \<and> 0 < d \<and> d < order_n cp"
  by (auto simp add: importPrivateKey_def)

lemma importPublicKey_Inr:
  "importPublicKey cp tag bytes = Inr Q \<longleftrightarrow>
     length bytes = 65 \<and> hd bytes = tag \<and>
     Q = Point (be_decode (take 32 (tl bytes))) (be_decode (drop 32 (tl bytes))) \<and>
     on_curve cp (be_decode (take 32 (tl bytes))) (be_decode (drop 32 (tl bytes)))"
  by (auto simp add: importPublicKey_def validate_point_def)

lemma export_import_public:
  assumes "importPublicKey cp tag bytes = Inr Q"
  shows "exportPublicKey tag Q = bytes"
proof -
  from assms have len: "length bytes = 65" and tag: "hd bytes = tag"
    and Q: "Q = Point (be_decode (take 32 (tl bytes))) (be_decode (drop 32 (tl bytes)))"
    by (simp_all add: importPublicKey_Inr)
  have x: "be_encode 32 (be_decode (take 32 (tl bytes))) = take 32 (tl bytes)"
    using be_encode_decode [of "take 32 (tl bytes)"] len by simp
  have y: "be_encode 32 (be_decode (drop 32 (tl bytes))) = drop 32 (tl bytes)"
    using be_encode_decode [of "drop 32 (tl bytes)"] len by simp
  from len have "bytes \<noteq> []" by auto
  then have "bytes = hd bytes # tl bytes" by simp
  also have "\<dots> = tag # take 32 (tl bytes) @ drop 32 (tl bytes)"
    by (simp only: tag append_take_drop_id)
  finally show ?thesis using Q x y by (simp add: exportPublicKey_def)
qed

lemma export_import_private:
  assumes "importPrivateKey cp raw = Inr d"
  shows "exportPrivateKey d = raw"
  using assms be_encode_decode [of raw]
  by (simp add: importPrivateKey_Inr exportPrivateKey_def)

text \<open>The two keys of main.c as numbers.\<close>

lemma length_alice_raw_keys:
  "length m_alice_raw_public_key = 64" "length m_alice_raw_private_key = 32"
  by (simp_all add: m_alice_raw_public_key_def m_alice_raw_private_key_def)

lemma decode_alice_public:
  "be_decode (take 32 m_alice_raw_public_key) =
     0x0217e617f0b6443928278f96999e69a23a4f2c152bdf6d6cdf66e5b80282d4ed"
  "be_decode (drop 32 m_alice_raw_public_key) =
     0x194a7debcb97712d2dda3ca85aa8765a56f45fc758599652f2897c65306e5794"
  by (simp_all add: be_decode_def m_alice_raw_public_key_def)

lemma decode_alice_private:
  "be_decode m_alice_raw_private_key =
     0x1111111111111111111111111111111111111111111111111111111111111111"
  by (simp add: be_decode_def m_alice_raw_private_key_def)

lemma alice_public_point_on_curve:
  "on_curve secp256r1
     0x0217e617f0b6443928278f96999e69a23a4f2c152bdf6d6cdf66e5b80282d4ed
     0x194a7debcb97712d2dda3ca85aa8765a56f45fc758599652f2897c65306e5794"
  unfolding on_curve_def secp256r1_def
  by simp

lemma import_alice_public:
  "importPublicKey secp256r1 0x04 (0x04 # m_alice_raw_public_key) =
     Inr (Point 0x0217e617f0b6443928278f96999e69a23a4f2c152bdf6d6cdf66e5b80282d4ed
                0x194a7debcb97712d2dda3ca85aa8765a56f45fc758599652f2897c65306e5794)"
  by (simp add: importPublicKey_def validate_point_def length_alice_raw_keys
        decode_alice_public alice_public_point_on_curve)

lemma import_alice_private:
  "importPrivateKey secp256r1 m_alice_raw_private_key =
     Inr 0x1111111111111111111111111111111111111111111111111111111111111111"
  by (simp add: importPrivateKey_def length_alice_raw_keys decode_alice_private)
     (simp add: secp256r1_def)

text \<open>
  Claim C7. Export is the inverse of import, byte for byte. If \<open>importPublicKey\<close>
  accepts an encoding, then exporting the imported key gives back the very bytes, and
  importing these gives the same key again; and the same for \<open>importPrivateKey\<close> and
  \<open>exportPrivateKey\<close>.
\<close>

theorem import_export_round_trip:
  "(importPublicKey cp tag bytes = Inr Q \<longrightarrow>
      exportPublicKey tag Q = bytes \<and>
      importPublicKey cp tag (exportPublicKey tag Q) = importPublicKey cp tag bytes) \<and>
   (importPrivateKey cp raw = Inr d \<longrightarrow>
      exportPrivateKey d = raw \<and>
      importPrivateKey cp (exportPrivateKey d) = importPrivateKey cp raw)"
proof (intro conjI impI)
  assume pub: "importPublicKey cp tag bytes = Inr Q"
  then show same: "exportPublicKey tag Q = bytes"
    by (rule export_import_public)
  show "importPublicKey cp tag (exportPublicKey tag Q) = importPublicKey cp tag bytes"
    by (simp only: same)
next
  assume priv: "importPrivateKey cp raw = Inr d"
  then show same: "exportPrivateKey d = raw"
    by (rule export_import_private)
  show "importPrivateKey cp (exportPrivateKey d) = importPrivateKey cp raw"
    by (simp only: same)
qed

theorem import_export_round_trip_witness:
  "importPublicKey secp256r1 0x04 (0x04 # m_alice_raw_public_key) =
     Inr (Point 0x0217e617f0b6443928278f96999e69a23a4f2c152bdf6d6cdf66e5b80282d4ed
                0x194a7debcb97712d2dda3ca85aa8765a56f45fc758599652f2897c65306e5794) \<and>
   exportPublicKey 0x04
     (Point 0x0217e617f0b6443928278f96999e69a23a4f2c152bdf6d6cdf66e5b80282d4ed
            0x194a7debcb97712d2dda3ca85aa8765a56f45fc758599652f2897c65306e5794) =
     0x04 # m_alice_raw_public_key \<and>
   importPrivateKey secp256r1 m_alice_raw_private_key =
     Inr 0x1111111111111111111111111111111111111111111111111111111111111111 \<and>
   exportPrivateKey 0x1111111111111111111111111111111111111111111111111111111111111111 =
     m_alice_raw_private_key"
  using import_export_round_trip
          [of secp256r1 "0x04" "0x04 # m_alice_raw_public_key"
              "Point 0x0217e617f0b6443928278f96999e69a23a4f2c152bdf6d6cdf66e5b80282d4ed
                     0x194a7debcb97712d2dda3ca85aa8765a56f45fc758599652f2897c65306e5794"
              m_alice_raw_private_key
              "0x1111111111111111111111111111111111111111111111111111111111111111"]
  by (simp only: import_alice_public import_alice_private simp_thms)

end
